theory Spec2Isabelle
  imports Main "HOL-Library.Sublist"
begin

section \<open>Data model\<close>

text \<open>
  The coordinator of the Frank Energie integration
  (\<^verbatim>\<open>custom_components/frank_energie/coordinator.py\<close>) is embedded here. Dates are day
  ordinals (\<open>today + timedelta(days=1)\<close> is \<open>today + 1\<close>), timestamps are integers.
\<close>

type_synonym date = int

text \<open>
  Modelled from the spec: the classes \<^verbatim>\<open>PriceData\<close> and \<^verbatim>\<open>MarketPrices\<close> come from the
  client library \<^verbatim>\<open>python_frank_energie.models\<close>. A price series is an ordered sequence
  of (timestamp, price) entries that supports concatenation and filtering to the future
  entries; \<^verbatim>\<open>MarketPrices\<close> pairs an electricity series with a gas series.
\<close>

type_synonym Price = "int \<times> int"

type_synonym PriceData = "Price list"

definition price_all :: "PriceData \<Rightarrow> Price list" where
  \<comment> \<open>Modelled from the spec: the property \<^verbatim>\<open>PriceData.all\<close>, the entries of the series.\<close>
  "price_all pd = pd"

definition price_add :: "PriceData \<Rightarrow> PriceData \<Rightarrow> PriceData" where
  \<comment> \<open>Modelled from the spec: \<^verbatim>\<open>PriceData.__add__\<close>, concatenation of two series.\<close>
  "price_add a b = a @ b"

definition get_future_prices :: "int \<Rightarrow> PriceData \<Rightarrow> Price list" where
  \<comment> \<open>Modelled from the spec: \<^verbatim>\<open>PriceData.get_future_prices\<close>, the entries dated after
     the clock reading \<open>now\<close>.\<close>
  "get_future_prices now pd = filter (\<lambda>p. now < fst p) pd"

record MarketPrices =
  electricity :: PriceData
  gas :: PriceData

text \<open>
  \<^verbatim>\<open>FrankEnergieData\<close> is the typed dictionary the coordinator returns and caches. The
  month summary and the invoices are opaque values of the client library; a field that
  holds \<^verbatim>\<open>None\<close> is \<open>None\<close>.
\<close>

record ('m, 'i) FrankEnergieData =
  DATA_ELECTRICITY :: PriceData
  DATA_GAS :: PriceData
  DATA_MONTH_SUMMARY :: "'m option"
  DATA_INVOICES :: "'i option"

text \<open>The token pair returned by \<^verbatim>\<open>api.renew_token()\<close>.\<close>

record Authentication =
  authToken :: string
  refreshToken :: string

text \<open>
  The exceptions of the module: \<^verbatim>\<open>RequestException\<close> and \<^verbatim>\<open>AuthException\<close> of the client
  library, \<^verbatim>\<open>UpdateFailed\<close> and \<^verbatim>\<open>ConfigEntryAuthFailed\<close> of the host, each with the text
  that \<^verbatim>\<open>str\<close> gives for it where the code reads it. \<^verbatim>\<open>TypeError\<close> is what subscripting
  \<^verbatim>\<open>self.data\<close> raises while it is still \<^verbatim>\<open>None\<close>. None of these classes derives from
  another one of them. \<open>OtherError\<close> stands for any exception that no handler of the
  module names.
\<close>

datatype exn =
    RequestException string
  | AuthException string
  | UpdateFailed string
  | ConfigEntryAuthFailed
  | TypeError
  | OtherError string

section \<open>The client and the coordinator state\<close>

text \<open>
  Every operation of the client is a network call. The calls issued so far are recorded
  in a trace; the answer of the client to a call is a function of the trace before the
  call and of the arguments, so that the same call may be answered differently each time.
  \<^verbatim>\<open>is_authenticated\<close> is the flag of the session; a cycle only reads it.
\<close>

datatype call =
    CallPrices date date
  | CallUserPrices date "string option"
  | CallMonthSummary "string option"
  | CallInvoices "string option"
  | CallRenewToken

record ('m, 'i) FrankEnergieApi =
  is_authenticated :: bool
  prices :: "call list \<Rightarrow> date \<Rightarrow> date \<Rightarrow> exn + MarketPrices"
  user_prices :: "call list \<Rightarrow> date \<Rightarrow> string option \<Rightarrow> exn + MarketPrices"
  month_summary :: "call list \<Rightarrow> string option \<Rightarrow> exn + 'm"
  invoices :: "call list \<Rightarrow> string option \<Rightarrow> exn + 'i"
  renew_token :: "call list \<Rightarrow> exn + Authentication"

text \<open>
  The coordinator object: \<^verbatim>\<open>self.site_reference\<close>, the cached snapshot \<^verbatim>\<open>self.data\<close>
  (\<open>None\<close> before the first successful cycle), the data of the config entry, and the
  trace of the calls made to the client.
\<close>

record ('m, 'i) FrankEnergieCoordinator =
  site_reference :: "string option"
  data :: "('m, 'i) FrankEnergieData option"
  entry_data :: "(string \<times> string) list"
  trace :: "call list"

definition CONF_ACCESS_TOKEN :: string where
  "CONF_ACCESS_TOKEN = ''access_token''"

definition CONF_TOKEN :: string where
  "CONF_TOKEN = ''token''"

section \<open>Awaiting a call: state and exceptions\<close>

type_synonym ('a, 'm, 'i) io =
  "('m, 'i) FrankEnergieCoordinator \<Rightarrow> (exn + 'a) \<times> ('m, 'i) FrankEnergieCoordinator"

definition return_io :: "'a \<Rightarrow> ('a, 'm, 'i) io" where
  "return_io a s = (Inr a, s)"

definition bind_io :: "('a, 'm, 'i) io \<Rightarrow> ('a \<Rightarrow> ('b, 'm, 'i) io) \<Rightarrow> ('b, 'm, 'i) io" where
  "bind_io f g s = (case f s of (Inl e, s') \<Rightarrow> (Inl e, s') | (Inr a, s') \<Rightarrow> g a s')"

definition call_api :: "call \<Rightarrow> (call list \<Rightarrow> exn + 'a) \<Rightarrow> ('a, 'm, 'i) io" where
  "call_api c answer s = (answer (trace s), s\<lparr>trace := trace s @ [c]\<rparr>)"

section \<open>The coordinator\<close>

text \<open>
  \<^verbatim>\<open>__fetch_prices_with_fallback\<close>: the public prices when the session is not
  authenticated; otherwise the user's prices, where a series that came back empty is
  replaced by the public one of the same window.
\<close>

definition fetch_prices_with_fallback ::
  "('m, 'i) FrankEnergieApi \<Rightarrow> date \<Rightarrow> date \<Rightarrow> (MarketPrices, 'm, 'i) io" where
  "fetch_prices_with_fallback api start_date end_date s =
     (if \<not> is_authenticated api then
        call_api (CallPrices start_date end_date) (\<lambda>h. prices api h start_date end_date) s
      else
        bind_io
          (call_api (CallUserPrices start_date (site_reference s))
             (\<lambda>h. user_prices api h start_date (site_reference s)))
          (\<lambda>user_prices.
             if length (price_all (gas user_prices)) > 0
                \<and> length (price_all (electricity user_prices)) > 0
             then return_io user_prices
             else
               bind_io
                 (call_api (CallPrices start_date end_date)
                    (\<lambda>h. prices api h start_date end_date))
                 (\<lambda>public_prices.
                    let up1 = (if length (price_all (gas user_prices)) = 0
                               then user_prices\<lparr>gas := gas public_prices\<rparr>
                               else user_prices);
                        up2 = (if length (price_all (electricity up1)) = 0
                               then up1\<lparr>electricity := electricity public_prices\<rparr>
                               else up1)
                    in return_io up2))
          s)"

text \<open>
  \<^verbatim>\<open>__try_renew_token\<close>: one call of \<^verbatim>\<open>api.renew_token()\<close>. The new pair replaces the
  data of the config entry; an \<^verbatim>\<open>AuthException\<close> becomes \<^verbatim>\<open>ConfigEntryAuthFailed\<close>; any
  other exception is not caught.
\<close>

fun renew_failed :: "exn \<Rightarrow> exn" where
  "renew_failed (AuthException m) = ConfigEntryAuthFailed"
| "renew_failed e = e"

definition try_renew_token :: "('m, 'i) FrankEnergieApi \<Rightarrow> (unit, 'm, 'i) io" where
  "try_renew_token api s =
     (case call_api CallRenewToken (renew_token api) s of
        (Inr updated_tokens, s1) \<Rightarrow>
          (Inr (),
           s1\<lparr>entry_data := [(CONF_ACCESS_TOKEN, authToken updated_tokens),
                              (CONF_TOKEN, refreshToken updated_tokens)]\<rparr>)
      | (Inl e, s1) \<Rightarrow> (Inl (renew_failed e), s1))"

text \<open>
  The body of the \<^verbatim>\<open>try\<close> statement of \<^verbatim>\<open>_async_update_data\<close>: the two price windows,
  then the month summary and the invoices when the session is authenticated. The first
  exception ends it.
\<close>

definition fetch_data ::
  "('m, 'i) FrankEnergieApi \<Rightarrow> date \<Rightarrow>
   (MarketPrices \<times> MarketPrices \<times> 'm option \<times> 'i option, 'm, 'i) io" where
  "fetch_data api today s =
     (let tomorrow = today + 1;
          day_after_tomorrow = today + 2
      in
        bind_io (fetch_prices_with_fallback api today tomorrow) (\<lambda>prices_today.
        bind_io (fetch_prices_with_fallback api tomorrow day_after_tomorrow) (\<lambda>prices_tomorrow.
        bind_io
          (\<lambda>s1. if is_authenticated api
                 then bind_io
                        (call_api (CallMonthSummary (site_reference s1))
                           (\<lambda>h. month_summary api h (site_reference s1)))
                        (\<lambda>m. return_io (Some m)) s1
                 else return_io None s1)
          (\<lambda>data_month_summary.
        bind_io
          (\<lambda>s2. if is_authenticated api
                 then bind_io
                        (call_api (CallInvoices (site_reference s2))
                           (\<lambda>h. invoices api h (site_reference s2)))
                        (\<lambda>i. return_io (Some i)) s2
                 else return_io None s2)
          (\<lambda>data_invoices.
        return_io (prices_today, prices_tomorrow, data_month_summary, data_invoices)))))
        s)"

text \<open>
  The \<^verbatim>\<open>except\<close> clauses, in the order of the source. Only an exception raised by the
  body of the \<^verbatim>\<open>try\<close> statement reaches them: what a handler raises leaves the statement.
\<close>

fun handle_exn ::
  "('m, 'i) FrankEnergieApi \<Rightarrow> int \<Rightarrow> exn \<Rightarrow> (('m, 'i) FrankEnergieData, 'm, 'i) io" where
  "handle_exn api now (UpdateFailed m) s =
     (case data s of
        None \<Rightarrow> (Inl TypeError, s)
      | Some d \<Rightarrow>
          if get_future_prices now (DATA_ELECTRICITY d) \<noteq> []
             \<and> get_future_prices now (DATA_GAS d) \<noteq> []
          then (Inr d, s)
          else (Inl (UpdateFailed m), s))"
| "handle_exn api now (RequestException m) s =
     (if prefix ''user-error:'' m then (Inl ConfigEntryAuthFailed, s)
      else (Inl (UpdateFailed m), s))"
| "handle_exn api now (AuthException m) s =
     (case try_renew_token api s of
        (Inl e, s1) \<Rightarrow> (Inl e, s1)
      | (Inr u, s1) \<Rightarrow> (Inl (UpdateFailed m), s1))"
| "handle_exn api now e s = (Inl e, s)"

text \<open>
  \<^verbatim>\<open>_async_update_data\<close>, one refresh cycle. \<open>today\<close> is the date read from the clock at
  the start of the cycle, \<open>now\<close> the clock reading of \<^verbatim>\<open>get_future_prices\<close>.
\<close>

definition async_update_data ::
  "('m, 'i) FrankEnergieApi \<Rightarrow> date \<Rightarrow> int \<Rightarrow> (('m, 'i) FrankEnergieData, 'm, 'i) io" where
  "async_update_data api today now s =
     (case fetch_data api today s of
        (Inl e, s') \<Rightarrow> handle_exn api now e s'
      | (Inr (prices_today, prices_tomorrow, data_month_summary, data_invoices), s') \<Rightarrow>
          (Inr \<lparr>DATA_ELECTRICITY =
                  price_add (electricity prices_today) (electricity prices_tomorrow),
                DATA_GAS = price_add (gas prices_today) (gas prices_tomorrow),
                DATA_MONTH_SUMMARY = data_month_summary,
                DATA_INVOICES = data_invoices\<rparr>, s'))"

section \<open>Outcomes, call windows and sample sessions\<close>

text \<open>
  A cycle that ends with \<^verbatim>\<open>UpdateFailed\<close> is a refresh failure; one that ends with
  \<^verbatim>\<open>ConfigEntryAuthFailed\<close> asks the host for its reauthentication flow.
\<close>

fun is_refresh_failure :: "exn + 'a \<Rightarrow> bool" where
  "is_refresh_failure (Inl (UpdateFailed m)) = True"
| "is_refresh_failure r = False"

fun is_auth_failure_signal :: "exn + 'a \<Rightarrow> bool" where
  "is_auth_failure_signal (Inl ConfigEntryAuthFailed) = True"
| "is_auth_failure_signal r = False"

text \<open>
  The calls one price window can cost: the public fetch alone, the user fetch alone, or
  the user fetch followed by the public one.
\<close>

definition window_calls :: "date \<Rightarrow> date \<Rightarrow> string option \<Rightarrow> call list set" where
  "window_calls a b r =
     {[CallPrices a b], [CallUserPrices a r], [CallUserPrices a r, CallPrices a b]}"

text \<open>\<open>only_calls s s'\<close>: nothing but the trace differs between the two states.\<close>

definition only_calls ::
  "('m, 'i) FrankEnergieCoordinator \<Rightarrow> ('m, 'i) FrankEnergieCoordinator \<Rightarrow> bool" where
  "only_calls s s' = (\<exists>cs. s' = s\<lparr>trace := trace s @ cs\<rparr>)"

text \<open>
  Sample sessions, used to run the cycle on concrete inputs. Timestamps count hours, so
  day \<open>d\<close> starts at hour \<open>24 * d\<close>.
\<close>

definition public_prices :: "date \<Rightarrow> MarketPrices" where
  "public_prices d = \<lparr>electricity = [(24 * d, 30), (24 * d + 12, 28)], gas = [(24 * d, 95)]\<rparr>"

definition account_prices :: "date \<Rightarrow> MarketPrices" where
  "account_prices d = \<lparr>electricity = [(24 * d, 25)], gas = [(24 * d, 80)]\<rparr>"

definition gas_only_prices :: "date \<Rightarrow> MarketPrices" where
  "gas_only_prices d = \<lparr>electricity = [], gas = [(24 * d, 80)]\<rparr>"

definition electricity_only_prices :: "date \<Rightarrow> MarketPrices" where
  "electricity_only_prices d = \<lparr>electricity = [(24 * d, 25)], gas = []\<rparr>"

definition renewed_tokens :: Authentication where
  "renewed_tokens = \<lparr>authToken = ''a2'', refreshToken = ''r2''\<rparr>"

definition answering_api :: "bool \<Rightarrow> (date \<Rightarrow> MarketPrices) \<Rightarrow> (nat, nat) FrankEnergieApi" where
  "answering_api auth user =
     \<lparr>is_authenticated = auth,
      prices = (\<lambda>h a b. Inr (public_prices a)),
      user_prices = (\<lambda>h a r. Inr (user a)),
      month_summary = (\<lambda>h r. Inr 12),
      invoices = (\<lambda>h r. Inr 3),
      renew_token = (\<lambda>h. Inr renewed_tokens)\<rparr>"

definition failing_api :: "exn \<Rightarrow> exn + Authentication \<Rightarrow> (nat, nat) FrankEnergieApi" where
  "failing_api e renewal =
     \<lparr>is_authenticated = True,
      prices = (\<lambda>h a b. Inl e),
      user_prices = (\<lambda>h a r. Inl e),
      month_summary = (\<lambda>h r. Inl e),
      invoices = (\<lambda>h r. Inl e),
      renew_token = (\<lambda>h. renewal)\<rparr>"

definition fresh_coordinator :: "(nat, nat) FrankEnergieCoordinator" where
  "fresh_coordinator =
     \<lparr>site_reference = Some ''site-1'',
      data = None,
      entry_data = [(CONF_ACCESS_TOKEN, ''a1''), (CONF_TOKEN, ''r1'')],
      trace = []\<rparr>"

definition cached_snapshot :: "(nat, nat) FrankEnergieData" where
  "cached_snapshot =
     \<lparr>DATA_ELECTRICITY = [(168, 30), (180, 28), (192, 27)],
      DATA_GAS = [(168, 95), (192, 96)],
      DATA_MONTH_SUMMARY = Some 12,
      DATA_INVOICES = Some 3\<rparr>"

definition cached_coordinator :: "(nat, nat) FrankEnergieCoordinator" where
  "cached_coordinator = fresh_coordinator\<lparr>data := Some cached_snapshot\<rparr>"

section \<open>What the client answered\<close>

text \<open>
  What the client did with a call: \<open>raised api h c\<close> is the exception with which the
  client answers the call \<open>c\<close> when the calls \<open>h\<close> were made before it, and \<open>None\<close>
  when it returns a value. \<open>answered api h cs\<close>: made one after the other after \<open>h\<close>,
  all the calls \<open>cs\<close> return.
\<close>

fun error_of :: "exn + 'a \<Rightarrow> exn option" where
  "error_of (Inl e) = Some e"
| "error_of (Inr a) = None"

fun raised :: "('m, 'i) FrankEnergieApi \<Rightarrow> call list \<Rightarrow> call \<Rightarrow> exn option" where
  "raised api h (CallPrices a b) = error_of (prices api h a b)"
| "raised api h (CallUserPrices a r) = error_of (user_prices api h a r)"
| "raised api h (CallMonthSummary r) = error_of (month_summary api h r)"
| "raised api h (CallInvoices r) = error_of (invoices api h r)"
| "raised api h CallRenewToken = error_of (renew_token api h)"

fun answered :: "('m, 'i) FrankEnergieApi \<Rightarrow> call list \<Rightarrow> call list \<Rightarrow> bool" where
  "answered api h [] = True"
| "answered api h (c # cs) = (raised api h c = None \<and> answered api (h @ [c]) cs)"

text \<open>
  \<open>fetches api s q s'\<close> relates the state before and after a sequence of fetches to its
  outcome \<open>q\<close>: only the trace grew, no renewal was called, and either every call returned
  (\<open>q = None\<close>) or every call but the last one returned and the client answered the last
  one by raising \<open>q\<close>.
\<close>

definition fetches ::
  "('m, 'i) FrankEnergieApi \<Rightarrow> ('m, 'i) FrankEnergieCoordinator \<Rightarrow> exn option \<Rightarrow>
   ('m, 'i) FrankEnergieCoordinator \<Rightarrow> bool" where
  "fetches api s q s' =
     (\<exists>cs. s' = s\<lparr>trace := trace s @ cs\<rparr> \<and> CallRenewToken \<notin> set cs
        \<and> (case q of
              None \<Rightarrow> answered api (trace s) cs
            | Some e \<Rightarrow> \<exists>cs0 c. cs = cs0 @ [c] \<and> answered api (trace s) cs0
                         \<and> raised api (trace s @ cs0) c = Some e))"

text \<open>
  Sample sessions in which the price fetches return and the account data may fail, and a
  cache whose prices have all passed at hour 170.
\<close>

definition account_api ::
  "exn + nat \<Rightarrow> exn + nat \<Rightarrow> exn + Authentication \<Rightarrow> (nat, nat) FrankEnergieApi" where
  "account_api summary invoice renewal =
     \<lparr>is_authenticated = True,
      prices = (\<lambda>h a b. Inr (public_prices a)),
      user_prices = (\<lambda>h a r. Inr (account_prices a)),
      month_summary = (\<lambda>h r. summary),
      invoices = (\<lambda>h r. invoice),
      renew_token = (\<lambda>h. renewal)\<rparr>"

definition expired_snapshot :: "(nat, nat) FrankEnergieData" where
  "expired_snapshot =
     \<lparr>DATA_ELECTRICITY = [(144, 30), (156, 28), (168, 27)],
      DATA_GAS = [(144, 95), (192, 96)],
      DATA_MONTH_SUMMARY = Some 12,
      DATA_INVOICES = Some 3\<rparr>"

definition expired_coordinator :: "(nat, nat) FrankEnergieCoordinator" where
  "expired_coordinator = fresh_coordinator\<lparr>data := Some expired_snapshot\<rparr>"

section \<open>Basic facts\<close>

lemmas cycle_defs =
  async_update_data_def fetch_data_def fetch_prices_with_fallback_def try_renew_token_def
  bind_io_def return_io_def call_api_def price_all_def price_add_def get_future_prices_def
  Let_def

lemmas sample_defs =
  answering_api_def failing_api_def fresh_coordinator_def cached_coordinator_def
  cached_snapshot_def public_prices_def account_prices_def gas_only_prices_def
  electricity_only_prices_def renewed_tokens_def CONF_ACCESS_TOKEN_def CONF_TOKEN_def
  account_api_def expired_snapshot_def expired_coordinator_def

lemma bind_io_cases:
  assumes "bind_io f g s = (r, s')"
  obtains (raised) e where "f s = (Inl e, s')" and "r = Inl e"
        | (returned) a s1 where "f s = (Inr a, s1)" and "g a s1 = (r, s')"
  using assms by (auto simp: bind_io_def split: prod.splits sum.splits)

lemma fetch_prices_trace:
  assumes "fetch_prices_with_fallback api a b s = (r, s')"
  shows "\<exists>w \<in> window_calls a b (site_reference s). s' = s\<lparr>trace := trace s @ w\<rparr>"
  using assms
  by (auto simp: fetch_prices_with_fallback_def window_calls_def call_api_def bind_io_def
      return_io_def Let_def split: if_splits sum.splits prod.splits)

lemma fetch_prices_unauth:
  "\<not> is_authenticated api \<Longrightarrow>
   fetch_prices_with_fallback api a b s =
     (prices api (trace s) a b, s\<lparr>trace := trace s @ [CallPrices a b]\<rparr>)"
  by (simp add: fetch_prices_with_fallback_def call_api_def)

lemma account_call_trace:
  assumes "(if c then bind_io (call_api k f) (\<lambda>m. return_io (Some m)) s
            else return_io None s) = (r, s')"
  shows "s' = s\<lparr>trace := trace s @ (if c then [k] else [])\<rparr>"
    and "\<not> c \<Longrightarrow> r = Inr None"
  using assms
  by (auto simp: bind_io_def return_io_def call_api_def split: if_splits sum.splits)

lemma fetch_prices_site:
  "fetch_prices_with_fallback api a b s = (r, s') \<Longrightarrow> site_reference s' = site_reference s"
  using fetch_prices_trace by fastforce

lemma fetch_data_success:
  assumes "fetch_data api d s = (Inr (pt, pm, ms, iv), s')"
  shows "\<exists>s1 s2. fetch_prices_with_fallback api d (d + 1) s = (Inr pt, s1)
           \<and> fetch_prices_with_fallback api (d + 1) (d + 2) s1 = (Inr pm, s2)
           \<and> s' = s2\<lparr>trace := trace s2 @
                       (if is_authenticated api
                        then [CallMonthSummary (site_reference s), CallInvoices (site_reference s)]
                        else [])\<rparr>
           \<and> (\<not> is_authenticated api \<longrightarrow> ms = None \<and> iv = None)"
proof -
  from assms show ?thesis
    unfolding fetch_data_def Let_def
  proof (cases rule: bind_io_cases)
    case (returned pt' s1)
    note f1 = returned(1)
    from returned(2) show ?thesis
    proof (cases rule: bind_io_cases)
      case (returned pm' s2)
      note f2 = returned(1)
      have site: "site_reference s2 = site_reference s"
        using fetch_prices_site [OF f1] fetch_prices_site [OF f2] by simp
      from returned(2) show ?thesis
      proof (cases rule: bind_io_cases)
        case (returned ms' s3)
        note m3 = account_call_trace [OF returned(1)]
        from returned(2) show ?thesis
        proof (cases rule: bind_io_cases)
          case (returned iv' s4)
          note m4 = account_call_trace [OF returned(1)]
          from returned(2) have eq: "pt' = pt" "pm' = pm" "ms' = ms" "iv' = iv" "s4 = s'"
            by (simp_all add: return_io_def)
          have "s' = s2\<lparr>trace := trace s2 @
                       (if is_authenticated api
                        then [CallMonthSummary (site_reference s), CallInvoices (site_reference s)]
                        else [])\<rparr>"
            using m3(1) m4(1) eq(5) site by simp
          moreover have "\<not> is_authenticated api \<longrightarrow> ms = None \<and> iv = None"
            using m3(2) m4(2) eq by auto
          ultimately show ?thesis using f1 f2 eq by auto
        qed simp
      qed simp
    qed simp
  qed simp
qed

lemma only_calls_refl: "only_calls s s"
  unfolding only_calls_def by (rule exI [of _ "[]"]) simp

lemma only_calls_trans: "only_calls s s1 \<Longrightarrow> only_calls s1 s2 \<Longrightarrow> only_calls s s2"
  unfolding only_calls_def by auto

lemma only_calls_fetch_prices:
  "fetch_prices_with_fallback api a b s = (r, s') \<Longrightarrow> only_calls s s'"
  unfolding only_calls_def using fetch_prices_trace by blast

lemma only_calls_account:
  assumes "(if c then bind_io (call_api k f) (\<lambda>m. return_io (Some m)) s
            else return_io None s) = (r, s')"
  shows "only_calls s s'"
  unfolding only_calls_def using account_call_trace(1) [OF assms] by blast

lemma fetch_data_only_calls:
  assumes "fetch_data api today s = (r, s')"
  shows "only_calls s s'"
proof -
  from assms show ?thesis
    unfolding fetch_data_def Let_def
  proof (cases rule: bind_io_cases)
    case (raised e)
    from only_calls_fetch_prices [OF raised(1)] show ?thesis .
  next
    case (returned pt s1)
    note c1 = only_calls_fetch_prices [OF returned(1)]
    from returned(2) show ?thesis
    proof (cases rule: bind_io_cases)
      case (raised e)
      from c1 only_calls_fetch_prices [OF raised(1)] show ?thesis
        by (rule only_calls_trans)
    next
      case (returned pm s2)
      note c2 = only_calls_trans [OF c1 only_calls_fetch_prices [OF returned(1)]]
      from returned(2) show ?thesis
      proof (cases rule: bind_io_cases)
        case (raised e)
        from c2 only_calls_account [OF raised(1)] show ?thesis
          by (rule only_calls_trans)
      next
        case (returned ms s3)
        note c3 = only_calls_trans [OF c2 only_calls_account [OF returned(1)]]
        from returned(2) show ?thesis
        proof (cases rule: bind_io_cases)
          case (raised e)
          from c3 only_calls_account [OF raised(1)] show ?thesis
            by (rule only_calls_trans)
        next
          case (returned iv s4)
          from returned(2) have "s4 = s'" by (simp add: return_io_def)
          with only_calls_trans [OF c3 only_calls_account [OF returned(1)]]
          show ?thesis by simp
        qed
      qed
    qed
  qed
qed

lemma fetch_data_keeps_data:
  "fetch_data api today s = (r, s') \<Longrightarrow> data s' = data s"
  using fetch_data_only_calls [of api today s r s'] by (auto simp: only_calls_def)

lemma try_renew_token_keeps_data:
  "try_renew_token api s = (r, s') \<Longrightarrow> data s' = data s"
  by (auto simp: try_renew_token_def call_api_def split: sum.splits)

lemma handle_exn_keeps_data:
  "handle_exn api now e s = (r, s') \<Longrightarrow> data s' = data s"
  by (cases e) (auto split: option.splits if_splits prod.splits sum.splits
      dest: try_renew_token_keeps_data)

lemma fetch_data_unauth:
  assumes "\<not> is_authenticated api"
  shows "fetch_data api d s =
     (case prices api (trace s) d (d + 1) of
        Inl e \<Rightarrow> (Inl e, s\<lparr>trace := trace s @ [CallPrices d (d + 1)]\<rparr>)
      | Inr pt \<Rightarrow>
          (case prices api (trace s @ [CallPrices d (d + 1)]) (d + 1) (d + 2) of
             Inl e \<Rightarrow>
               (Inl e, s\<lparr>trace := trace s @ [CallPrices d (d + 1), CallPrices (d + 1) (d + 2)]\<rparr>)
           | Inr pm \<Rightarrow>
               (Inr (pt, pm, None, None),
                s\<lparr>trace := trace s @ [CallPrices d (d + 1), CallPrices (d + 1) (d + 2)]\<rparr>)))"
  using assms
  by (simp add: fetch_data_def fetch_prices_unauth bind_io_def return_io_def Let_def
      split: sum.splits)

lemma handle_exn_no_update_failed:
  assumes "\<forall>m. e \<noteq> UpdateFailed m" and "handle_exn api now e s = (r, s')"
  shows "(\<exists>e'. r = Inl e') \<and> (trace s' = trace s \<or> trace s' = trace s @ [CallRenewToken])"
  using assms
  by (cases e) (auto simp: try_renew_token_def call_api_def split: sum.splits if_splits)

text \<open>
  An exception that ends the body of the \<^verbatim>\<open>try\<close> statement is the answer of the client to
  one of the calls. So for a client that does not raise the host's \<^verbatim>\<open>UpdateFailed\<close>, the
  clause that returns the cached snapshot is never entered: a cycle whose fetches fail
  always ends with an exception.
\<close>

lemma fetch_prices_raises_client_exception:
  assumes "fetch_prices_with_fallback api a b s = (Inl e, s')"
  shows "(\<exists>h. prices api h a b = Inl e) \<or> (\<exists>h r. user_prices api h a r = Inl e)"
  using assms
  by (auto simp: fetch_prices_with_fallback_def bind_io_def return_io_def call_api_def Let_def
      split: if_splits sum.splits)

lemma account_call_raises_client_exception:
  assumes "(if c then bind_io (call_api k f) (\<lambda>m. return_io (Some m)) s
            else return_io None s) = (Inl e, s')"
  shows "\<exists>h. f h = Inl e"
  using assms
  by (auto simp: bind_io_def return_io_def call_api_def split: if_splits sum.splits)

lemma fetch_data_raises_client_exception:
  assumes "fetch_data api today s = (Inl e, s')"
  shows "(\<exists>h a b. prices api h a b = Inl e)
       \<or> (\<exists>h a r. user_prices api h a r = Inl e)
       \<or> (\<exists>h r. month_summary api h r = Inl e)
       \<or> (\<exists>h r. invoices api h r = Inl e)"
proof -
  from assms show ?thesis
    unfolding fetch_data_def Let_def
  proof (cases rule: bind_io_cases)
    case (raised e1)
    with fetch_prices_raises_client_exception [of api today "today + 1" s e s']
    show ?thesis by blast
  next
    case (returned pt s1)
    from returned(2) show ?thesis
    proof (cases rule: bind_io_cases)
      case (raised e2)
      with fetch_prices_raises_client_exception [of api "today + 1" "today + 2" s1 e s']
      show ?thesis by blast
    next
      case (returned pm s2)
      from returned(2) show ?thesis
      proof (cases rule: bind_io_cases)
        case (raised e3)
        then have "\<exists>h. month_summary api h (site_reference s2) = Inl e"
          using account_call_raises_client_exception by fast
        then show ?thesis by blast
      next
        case (returned ms s3)
        from returned(2) show ?thesis
        proof (cases rule: bind_io_cases)
          case (raised e4)
          then have "\<exists>h. invoices api h (site_reference s3) = Inl e"
            using account_call_raises_client_exception by fast
          then show ?thesis by blast
        next
          case (returned iv s4)
          then show ?thesis by (simp add: return_io_def)
        qed
      qed
    qed
  qed
qed

lemma first_fetch_raises:
  "fetch_prices_with_fallback api today (today + 1) s = (Inl e, s1) \<Longrightarrow>
   fetch_data api today s = (Inl e, s1)"
  by (simp add: fetch_data_def bind_io_def Let_def)

lemma stale_clause_unreachable:
  assumes "\<forall>h a b m. prices api h a b \<noteq> Inl (UpdateFailed m)"
    and "\<forall>h a r m. user_prices api h a r \<noteq> Inl (UpdateFailed m)"
    and "\<forall>h r m. month_summary api h r \<noteq> Inl (UpdateFailed m)"
    and "\<forall>h r m. invoices api h r \<noteq> Inl (UpdateFailed m)"
    and "fetch_data api today s = (Inl e, s1)"
  shows "\<exists>e'. fst (async_update_data api today now s) = Inl e'"
proof -
  have "\<forall>m. e \<noteq> UpdateFailed m"
    using fetch_data_raises_client_exception [OF assms(5)] assms(1-4) by blast
  then show ?thesis
    using handle_exn_no_update_failed [of e api now s1] assms(5)
    by (cases "handle_exn api now e s1") (auto simp: async_update_data_def)
qed

text \<open>
  A request exception raised in the body of the \<^verbatim>\<open>try\<close> statement is never answered
  from the cache, whatever the cache holds: the clause that returns \<^verbatim>\<open>self.data\<close> names
  \<^verbatim>\<open>UpdateFailed\<close>, and the \<^verbatim>\<open>UpdateFailed\<close> that the clause for \<^verbatim>\<open>RequestException\<close> raises
  is raised outside the body.
\<close>

lemma request_failure_never_served_from_cache:
  assumes "fetch_data api today s = (Inl (RequestException m), s1)"
  shows "fst (async_update_data api today now s) \<noteq> Inr d"
  using assms by (simp add: async_update_data_def)

section \<open>A fetch that raises ends the body of the try statement\<close>

text \<open>
  The body of the \<^verbatim>\<open>try\<close> statement stops at the first call that the client answers by
  raising, with that exception. So when the trace of a cycle shows a fetch that the client
  answered by raising \<open>e\<close>, that fetch was the last call of the body and the handlers
  received \<open>e\<close>.
\<close>

lemma answered_append:
  "answered api h (xs @ ys) = (answered api h xs \<and> answered api (h @ xs) ys)"
  by (induction xs arbitrary: h) auto

lemma answered_not_raised:
  "answered api h (pre @ c # post) \<Longrightarrow> raised api (h @ pre) c = None"
  by (simp add: answered_append)

lemma fetches_return: "return_io a s = (q, s') \<Longrightarrow> fetches api s (error_of q) s'"
  unfolding fetches_def return_io_def
  by (intro exI [of _ "[]"]) auto

lemma fetches_call:
  assumes "call_api c f s = (q, s')" and "c \<noteq> CallRenewToken"
    and "raised api (trace s) c = error_of (f (trace s))"
  shows "fetches api s (error_of q) s'"
  unfolding fetches_def
  using assms
  by (intro exI [of _ "[c]"]) (auto simp: call_api_def split: option.splits)

lemma fetches_bind:
  assumes "bind_io f g s = (q, s')"
    and "\<And>q1 s1. f s = (q1, s1) \<Longrightarrow> fetches api s (error_of q1) s1"
    and "\<And>a s1 q2 s2. g a s1 = (q2, s2) \<Longrightarrow> fetches api s1 (error_of q2) s2"
  shows "fetches api s (error_of q) s'"
  using assms(1)
proof (cases rule: bind_io_cases)
  case (raised e)
  with assms(2) [of "Inl e" s'] show ?thesis by simp
next
  case (returned a s1)
  from assms(2) [OF returned(1)] obtain cs1 where
    s1: "s1 = s\<lparr>trace := trace s @ cs1\<rparr>" and n1: "CallRenewToken \<notin> set cs1"
    and a1: "answered api (trace s) cs1"
    by (auto simp: fetches_def)
  from assms(3) [OF returned(2)] obtain cs2 where
    s2: "s' = s1\<lparr>trace := trace s1 @ cs2\<rparr>" and n2: "CallRenewToken \<notin> set cs2"
    and a2: "case error_of q of
              None \<Rightarrow> answered api (trace s1) cs2
            | Some e \<Rightarrow> \<exists>cs0 c. cs2 = cs0 @ [c] \<and> answered api (trace s1) cs0
                         \<and> raised api (trace s1 @ cs0) c = Some e"
    by (auto simp: fetches_def)
  have t1: "trace s1 = trace s @ cs1" using s1 by simp
  have "s' = s\<lparr>trace := trace s @ (cs1 @ cs2)\<rparr>" using s1 s2 by simp
  moreover have "CallRenewToken \<notin> set (cs1 @ cs2)" using n1 n2 by simp
  moreover have "case error_of q of
              None \<Rightarrow> answered api (trace s) (cs1 @ cs2)
            | Some e \<Rightarrow> \<exists>cs0 c. cs1 @ cs2 = cs0 @ [c] \<and> answered api (trace s) cs0
                         \<and> raised api (trace s @ cs0) c = Some e"
  proof (cases q)
    case (Inr v)
    with a1 a2 t1 show ?thesis by (simp add: answered_append)
  next
    case (Inl e)
    with a2 obtain cs0 c where "cs2 = cs0 @ [c]" "answered api (trace s1) cs0"
      "raised api (trace s1 @ cs0) c = Some e" by auto
    with a1 t1 have "cs1 @ cs2 = (cs1 @ cs0) @ [c] \<and> answered api (trace s) (cs1 @ cs0)
                         \<and> raised api (trace s @ (cs1 @ cs0)) c = Some e"
      by (simp add: answered_append)
    with Inl show ?thesis by (simp only: error_of.simps option.case) blast
  qed
  ultimately show ?thesis unfolding fetches_def by blast
qed

lemma fetches_fetch_prices:
  assumes "fetch_prices_with_fallback api a b s = (q, s')"
  shows "fetches api s (error_of q) s'"
proof (cases "is_authenticated api")
  case False
  with assms have "call_api (CallPrices a b) (\<lambda>h. prices api h a b) s = (q, s')"
    by (simp add: fetch_prices_with_fallback_def)
  then show ?thesis by (rule fetches_call) simp_all
next
  case True
  with assms have b: "bind_io
          (call_api (CallUserPrices a (site_reference s))
             (\<lambda>h. user_prices api h a (site_reference s)))
          (\<lambda>user_prices.
             if length (price_all (gas user_prices)) > 0
                \<and> length (price_all (electricity user_prices)) > 0
             then return_io user_prices
             else
               bind_io
                 (call_api (CallPrices a b)
                    (\<lambda>h. prices api h a b))
                 (\<lambda>public_prices.
                    let up1 = (if length (price_all (gas user_prices)) = 0
                               then user_prices\<lparr>gas := gas public_prices\<rparr>
                               else user_prices);
                        up2 = (if length (price_all (electricity up1)) = 0
                               then up1\<lparr>electricity := electricity public_prices\<rparr>
                               else up1)
                    in return_io up2))
          s = (q, s')"
    by (simp add: fetch_prices_with_fallback_def)
  show ?thesis
  proof (rule fetches_bind [OF b])
    fix q1 s1
    assume "call_api (CallUserPrices a (site_reference s))
             (\<lambda>h. user_prices api h a (site_reference s)) s = (q1, s1)"
    then show "fetches api s (error_of q1) s1" by (rule fetches_call) simp_all
  next
    fix up :: MarketPrices and s1 :: "('a, 'b) FrankEnergieCoordinator" and q2 s2
    assume g: "(if length (price_all (gas up)) > 0
                \<and> length (price_all (electricity up)) > 0
             then return_io up
             else
               bind_io
                 (call_api (CallPrices a b)
                    (\<lambda>h. prices api h a b))
                 (\<lambda>public_prices.
                    let up1 = (if length (price_all (gas up)) = 0
                               then up\<lparr>gas := gas public_prices\<rparr>
                               else up);
                        up2 = (if length (price_all (electricity up1)) = 0
                               then up1\<lparr>electricity := electricity public_prices\<rparr>
                               else up1)
                    in return_io up2)) s1 = (q2, s2)"
    show "fetches api s1 (error_of q2) s2"
    proof (cases "length (price_all (gas up)) > 0 \<and> length (price_all (electricity up)) > 0")
      case True
      with g have "return_io up s1 = (q2, s2)" by simp
      then show ?thesis by (rule fetches_return)
    next
      case False
      with g have b2: "bind_io
                 (call_api (CallPrices a b)
                    (\<lambda>h. prices api h a b))
                 (\<lambda>public_prices.
                    let up1 = (if length (price_all (gas up)) = 0
                               then up\<lparr>gas := gas public_prices\<rparr>
                               else up);
                        up2 = (if length (price_all (electricity up1)) = 0
                               then up1\<lparr>electricity := electricity public_prices\<rparr>
                               else up1)
                    in return_io up2) s1 = (q2, s2)"
        by (simp del: length_greater_0_conv)
      show ?thesis
      proof (rule fetches_bind [OF b2])
        fix q3 s3
        assume "call_api (CallPrices a b) (\<lambda>h. prices api h a b) s1 = (q3, s3)"
        then show "fetches api s1 (error_of q3) s3" by (rule fetches_call) simp_all
      next
        fix pp :: MarketPrices and s3 :: "('a, 'b) FrankEnergieCoordinator" and q4 s4
        assume "(let up1 = (if length (price_all (gas up)) = 0
                               then up\<lparr>gas := gas pp\<rparr>
                               else up);
                        up2 = (if length (price_all (electricity up1)) = 0
                               then up1\<lparr>electricity := electricity pp\<rparr>
                               else up1)
                    in return_io up2) s3 = (q4, s4)"
        then show "fetches api s3 (error_of q4) s4"
          by (auto simp: Let_def intro: fetches_return split: if_splits)
      qed
    qed
  qed
qed

lemma fetches_account:
  assumes "(if b then bind_io (call_api k f) (\<lambda>m. return_io (Some m)) s
            else return_io None s) = (q, s')"
    and "k \<noteq> CallRenewToken"
    and "raised api (trace s) k = error_of (f (trace s))"
  shows "fetches api s (error_of q) s'"
proof (cases b)
  case False
  with assms(1) have "return_io None s = (q, s')" by simp
  then show ?thesis by (rule fetches_return)
next
  case True
  with assms(1) have "bind_io (call_api k f) (\<lambda>m. return_io (Some m)) s = (q, s')" by simp
  then show ?thesis
  proof (rule fetches_bind)
    fix q1 s1 assume "call_api k f s = (q1, s1)"
    then show "fetches api s (error_of q1) s1" using assms(2,3) by (rule fetches_call)
  next
    show "\<And>a s1 q2 s2. return_io (Some a) s1 = (q2, s2) \<Longrightarrow> fetches api s1 (error_of q2) s2"
      by (rule fetches_return)
  qed
qed

lemma handle_exn_trace:
  assumes "handle_exn api now e s = (r, s')"
  shows "trace s' = trace s \<or> trace s' = trace s @ [CallRenewToken]"
  using assms
  by (cases e)
    (auto simp: try_renew_token_def call_api_def split: sum.splits if_splits option.splits)

lemma async_update_data_trace:
  assumes "async_update_data api today now s = (r, s')"
    and "fetch_data api today s = (q, s1)"
  shows "trace s' = trace s1 \<or> trace s' = trace s1 @ [CallRenewToken]"
proof (cases q)
  case (Inl e)
  with assms have "handle_exn api now e s1 = (r, s')" by (simp add: async_update_data_def)
  then show ?thesis by (rule handle_exn_trace)
next
  case (Inr v)
  with assms have "s' = s1" by (auto simp: async_update_data_def split: prod.splits)
  then show ?thesis by simp
qed

lemma raising_fetch_ends_try_body:
  assumes fd: "fetch_data api today s = (q, s1)"
    and body: "fetches api s (error_of q) s1"
    and run: "async_update_data api today now s = (r, s')"
    and issued: "prefix (trace s @ cs @ [c]) (trace s')"
    and fetch: "c \<noteq> CallRenewToken"
    and raised: "raised api (trace s @ cs) c = Some e"
  shows "fetch_data api today s = (Inl e, s\<lparr>trace := trace s @ cs @ [c]\<rparr>)"
proof -
  from body obtain cs1 where
    s1: "s1 = s\<lparr>trace := trace s @ cs1\<rparr>" and
    shape: "case error_of q of
              None \<Rightarrow> answered api (trace s) cs1
            | Some e' \<Rightarrow> \<exists>cs0 c'. cs1 = cs0 @ [c'] \<and> answered api (trace s) cs0
                         \<and> raised api (trace s @ cs0) c' = Some e'"
    by (auto simp: fetches_def)
  have t1: "trace s1 = trace s @ cs1" using s1 by simp
  from async_update_data_trace [OF run fd] t1 issued fetch
  have "prefix (cs @ [c]) cs1" by auto
  then obtain post where cs1: "cs1 = cs @ c # post" by (auto simp: prefix_def)
  have not_answered: "\<not> answered api (trace s) (cs @ c # post')" for post'
    using answered_not_raised [of api "trace s" cs c post'] raised by auto
  show ?thesis
  proof (cases q)
    case (Inr v)
    with shape cs1 not_answered show ?thesis by simp
  next
    case (Inl e')
    with shape obtain cs0 c' where
      c0: "cs1 = cs0 @ [c']" and a0: "answered api (trace s) cs0"
      and r0: "raised api (trace s @ cs0) c' = Some e'" by auto
    have "post = []"
    proof (rule ccontr)
      assume "post \<noteq> []"
      then have "post = butlast post @ [last post]" by simp
      with cs1 c0 have "cs0 @ [c'] = (cs @ c # butlast post) @ [last post]" by simp
      then have "cs0 = cs @ c # butlast post" by (simp only: append1_eq_conv)
      with a0 not_answered show False by simp
    qed
    with cs1 c0 have "cs0 = cs" "c' = c" by auto
    with r0 raised have "e' = e" by simp
    with Inl fd s1 cs1 \<open>post = []\<close> show ?thesis by simp
  qed
qed

section \<open>Failure handling of a cycle\<close>

text \<open>
  Claim C1: when the cached snapshot still has a future-dated price for electricity and
  for gas, a generic request failure during a fetch makes the cycle return the cached
  snapshot unchanged.

  The source states this intent in its comment (``Check if we still have data to work
  with, if so, return this data''), but the clause that does it catches \<^verbatim>\<open>UpdateFailed\<close>,
  a class of the host that the client does not raise. Evaluated on a session whose cache holds future prices for both
  commodities at hour 170 and whose client answers every call with
  \<^verbatim>\<open>RequestException("Request failed: 503")\<close>, the cycle ends with \<^verbatim>\<open>UpdateFailed\<close> and the
  cached snapshot is not returned.
\<close>

theorem request_failure_with_future_cache_raises:
  "get_future_prices 170 (DATA_ELECTRICITY cached_snapshot) \<noteq> []
   \<and> get_future_prices 170 (DATA_GAS cached_snapshot) \<noteq> []
   \<and> data cached_coordinator = Some cached_snapshot
   \<and> fst (fetch_data
            (failing_api (RequestException ''Request failed: 503'') (Inr renewed_tokens))
            7 cached_coordinator)
       = Inl (RequestException ''Request failed: 503'')
   \<and> fst (async_update_data
            (failing_api (RequestException ''Request failed: 503'') (Inr renewed_tokens))
            7 170 cached_coordinator)
       = Inl (UpdateFailed ''Request failed: 503'')
   \<and> fst (async_update_data
            (failing_api (RequestException ''Request failed: 503'') (Inr renewed_tokens))
            7 170 cached_coordinator)
       \<noteq> Inr cached_snapshot"
  by (simp add: cycle_defs sample_defs)

text \<open>
  Claim C2: when a fetch raises the authentication-expiry exception, the coordinator
  attempts one token renewal and the cycle then ends as a refresh failure, whether the
  renewal succeeded or failed.

  As stated this fails: when the renewal itself is rejected with an \<^verbatim>\<open>AuthException\<close>,
  \<^verbatim>\<open>__try_renew_token\<close> raises \<^verbatim>\<open>ConfigEntryAuthFailed\<close>, which leaves the handler before
  its \<^verbatim>\<open>raise UpdateFailed\<close> is reached.
\<close>

theorem rejected_renewal_ends_in_reauth:
  "raised
     (failing_api (AuthException ''jwt expired'') (Inl (AuthException ''refresh revoked'')))
     (trace cached_coordinator) (CallUserPrices 7 (Some ''site-1''))
     = Some (AuthException ''jwt expired'')
   \<and> fst (fetch_data
         (failing_api (AuthException ''jwt expired'') (Inl (AuthException ''refresh revoked'')))
         7 cached_coordinator)
     = Inl (AuthException ''jwt expired'')
   \<and> fst (async_update_data
         (failing_api (AuthException ''jwt expired'') (Inl (AuthException ''refresh revoked'')))
         7 170 cached_coordinator)
     = Inl ConfigEntryAuthFailed
   \<and> \<not> is_refresh_failure (fst (async_update_data
         (failing_api (AuthException ''jwt expired'') (Inl (AuthException ''refresh revoked'')))
         7 170 cached_coordinator))"
  by (simp add: cycle_defs sample_defs)

text \<open>
  Claim C2, amended: when a fetch raises the authentication-expiry exception, the
  coordinator calls the renewal exactly once. If the renewal succeeds, the new token pair
  is stored in the config entry and the cycle ends as a refresh failure carrying the
  message of the expiry; if the renewal is rejected with an authentication exception, the
  cycle ends with the authentication-failure signal instead.

  A fetch raises: after the calls \<open>cs\<close> of this cycle the coordinator issued the fetch \<open>c\<close>
  (any call of the client but the renewal), and the client answered it by raising.
\<close>

theorem auth_expiry_renews_once:
  assumes "async_update_data api today now s = (r, s')"
    and "prefix (trace s @ cs @ [c]) (trace s')"
    and "c \<noteq> CallRenewToken"
    and "raised api (trace s @ cs) c = Some (AuthException m)"
  shows "trace s' = trace s @ cs @ [c, CallRenewToken]
       \<and> (\<forall>t. renew_token api (trace s @ cs @ [c]) = Inr t \<longrightarrow>
             r = Inl (UpdateFailed m)
             \<and> entry_data s' = [(CONF_ACCESS_TOKEN, authToken t), (CONF_TOKEN, refreshToken t)])
       \<and> (\<forall>m'. renew_token api (trace s @ cs @ [c]) = Inl (AuthException m') \<longrightarrow>
             r = Inl ConfigEntryAuthFailed)"
proof -
  obtain q s1 where body: "fetch_data api today s = (q, s1)"
    by (cases "fetch_data api today s")
  have "fetches api s (error_of q) s1"
    using body unfolding fetch_data_def Let_def
    apply (elim fetches_bind)
        apply (erule fetches_fetch_prices)
       apply (erule fetches_fetch_prices)
      apply (erule fetches_account; simp)
     apply (erule fetches_account; simp)
    apply (erule fetches_return)
    done
  from raising_fetch_ends_try_body [OF body this assms(1-4)] assms(1)
  show ?thesis
    by (auto simp: async_update_data_def try_renew_token_def call_api_def split: sum.splits)
qed

theorem auth_expiry_renews_once_witness:
  "async_update_data
     (account_api (Inl (AuthException ''jwt expired'')) (Inr 3) (Inr renewed_tokens))
     7 170 cached_coordinator
   = (Inl (UpdateFailed ''jwt expired''),
      cached_coordinator
        \<lparr>entry_data := [(''access_token'', ''a2''), (''token'', ''r2'')],
         trace := [CallUserPrices 7 (Some ''site-1''), CallUserPrices 8 (Some ''site-1''),
                   CallMonthSummary (Some ''site-1''), CallRenewToken]\<rparr>)"
proof -
  let ?api = "account_api (Inl (AuthException ''jwt expired'')) (Inr 3) (Inr renewed_tokens)"
  let ?run = "async_update_data ?api 7 170 cached_coordinator"
  let ?cs = "[CallUserPrices 7 (Some ''site-1''), CallUserPrices 8 (Some ''site-1'')]"
  let ?c = "CallMonthSummary (Some ''site-1'')"
  have run: "?run = (fst ?run, snd ?run)"
    by simp
  have issued: "prefix (trace cached_coordinator @ ?cs @ [?c]) (trace (snd ?run))"
    by (simp add: cycle_defs sample_defs)
  have fetch: "?c \<noteq> CallRenewToken"
    by simp
  have expired: "raised ?api (trace cached_coordinator @ ?cs) ?c
      = Some (AuthException ''jwt expired'')"
    by (simp add: account_api_def)
  have renewed: "renew_token ?api (trace cached_coordinator @ ?cs @ [?c]) = Inr renewed_tokens"
    by (simp add: account_api_def)
  have computed: "?run = (Inl (UpdateFailed ''jwt expired''),
      cached_coordinator
        \<lparr>entry_data := [(''access_token'', ''a2''), (''token'', ''r2'')],
         trace := [CallUserPrices 7 (Some ''site-1''), CallUserPrices 8 (Some ''site-1''),
                   CallMonthSummary (Some ''site-1''), CallRenewToken]\<rparr>)"
    by (simp add: cycle_defs sample_defs)
  note c = auth_expiry_renews_once [OF run issued fetch expired]
  from c renewed have
    "trace (snd ?run) = trace cached_coordinator @ ?cs @ [?c, CallRenewToken]"
    "fst ?run = Inl (UpdateFailed ''jwt expired'')"
    "entry_data (snd ?run) =
       [(CONF_ACCESS_TOKEN, authToken renewed_tokens), (CONF_TOKEN, refreshToken renewed_tokens)]"
    by blast+
  with computed show ?thesis
    by simp
qed

text \<open>
  Claim C3: when a fetch raises a request exception whose message is tagged as a user
  error (it starts with \<^verbatim>\<open>user-error:\<close>), the cycle ends with the authentication-failure
  signal and never returns the cached snapshot, whatever the cache holds. The fetch is
  any call \<open>c\<close> of the cycle that the client answered by raising (a price fetch of either
  window, the month summary or the invoices); no call follows it.
\<close>

theorem user_error_escalates_to_reauth:
  assumes "async_update_data api today now s = (r, s')"
    and "prefix (trace s @ cs @ [c]) (trace s')"
    and "c \<noteq> CallRenewToken"
    and "raised api (trace s @ cs) c = Some (RequestException m)"
    and "prefix ''user-error:'' m"
  shows "r = Inl ConfigEntryAuthFailed
       \<and> (\<forall>d. r \<noteq> Inr d)
       \<and> s' = s\<lparr>trace := trace s @ cs @ [c]\<rparr>"
proof -
  obtain q s1 where body: "fetch_data api today s = (q, s1)"
    by (cases "fetch_data api today s")
  have "fetches api s (error_of q) s1"
    using body unfolding fetch_data_def Let_def
    apply (elim fetches_bind)
        apply (erule fetches_fetch_prices)
       apply (erule fetches_fetch_prices)
      apply (erule fetches_account; simp)
     apply (erule fetches_account; simp)
    apply (erule fetches_return)
    done
  from raising_fetch_ends_try_body [OF body this assms(1-4)] assms(1) assms(5)
  show ?thesis
    by (auto simp: async_update_data_def)
qed

theorem user_error_escalates_to_reauth_witness:
  "get_future_prices 170 (DATA_ELECTRICITY cached_snapshot) \<noteq> []
   \<and> get_future_prices 170 (DATA_GAS cached_snapshot) \<noteq> []
   \<and> async_update_data
       (account_api (Inl (RequestException ''user-error:auth-not-authorised'')) (Inr 3)
          (Inr renewed_tokens))
       7 170 cached_coordinator
     = (Inl ConfigEntryAuthFailed,
        cached_coordinator
          \<lparr>trace := [CallUserPrices 7 (Some ''site-1''), CallUserPrices 8 (Some ''site-1''),
                     CallMonthSummary (Some ''site-1'')]\<rparr>)"
proof -
  let ?api = "account_api (Inl (RequestException ''user-error:auth-not-authorised'')) (Inr 3)
      (Inr renewed_tokens)"
  let ?run = "async_update_data ?api 7 170 cached_coordinator"
  let ?cs = "[CallUserPrices 7 (Some ''site-1''), CallUserPrices 8 (Some ''site-1'')]"
  let ?c = "CallMonthSummary (Some ''site-1'')"
  have run: "?run = (fst ?run, snd ?run)"
    by simp
  have issued: "prefix (trace cached_coordinator @ ?cs @ [?c]) (trace (snd ?run))"
    by (simp add: cycle_defs sample_defs)
  have fetch: "?c \<noteq> CallRenewToken"
    by simp
  have failed: "raised ?api (trace cached_coordinator @ ?cs) ?c
      = Some (RequestException ''user-error:auth-not-authorised'')"
    by (simp add: account_api_def)
  have tagged: "prefix ''user-error:'' ''user-error:auth-not-authorised''"
    by simp
  have future: "get_future_prices 170 (DATA_ELECTRICITY cached_snapshot) \<noteq> []
      \<and> get_future_prices 170 (DATA_GAS cached_snapshot) \<noteq> []"
    by (simp add: get_future_prices_def cached_snapshot_def)
  have computed: "fst ?run = Inl ConfigEntryAuthFailed"
    by (simp add: cycle_defs sample_defs)
  from user_error_escalates_to_reauth [OF run issued fetch failed tagged]
  have "fst ?run = Inl ConfigEntryAuthFailed"
    and "snd ?run = cached_coordinator\<lparr>trace := trace cached_coordinator @ ?cs @ [?c]\<rparr>"
    by simp_all
  then have "?run = (Inl ConfigEntryAuthFailed,
      cached_coordinator\<lparr>trace := trace cached_coordinator @ ?cs @ [?c]\<rparr>)"
    by (simp add: prod_eq_iff)
  with future computed show ?thesis
    by (simp add: cached_coordinator_def fresh_coordinator_def)
qed

text \<open>
  Claim C4: when the cached snapshot has no future-dated price for electricity or none
  for gas, a generic request failure (one whose message is not tagged as a user error)
  raised by any fetch of the cycle is not absorbed: the cycle ends as a refresh failure
  carrying the message, and no call follows the failed one. A cache that is still empty
  has no future-dated price either.
\<close>

theorem request_failure_propagates_without_future_data:
  assumes "async_update_data api today now s = (r, s')"
    and "prefix (trace s @ cs @ [c]) (trace s')"
    and "c \<noteq> CallRenewToken"
    and "raised api (trace s @ cs) c = Some (RequestException m)"
    and "\<not> prefix ''user-error:'' m"
    and "\<forall>d. data s = Some d \<longrightarrow>
           get_future_prices now (DATA_ELECTRICITY d) = []
           \<or> get_future_prices now (DATA_GAS d) = []"
  shows "r = Inl (UpdateFailed m) \<and> s' = s\<lparr>trace := trace s @ cs @ [c]\<rparr>"
proof -
  obtain q s1 where body: "fetch_data api today s = (q, s1)"
    by (cases "fetch_data api today s")
  have "fetches api s (error_of q) s1"
    using body unfolding fetch_data_def Let_def
    apply (elim fetches_bind)
        apply (erule fetches_fetch_prices)
       apply (erule fetches_fetch_prices)
      apply (erule fetches_account; simp)
     apply (erule fetches_account; simp)
    apply (erule fetches_return)
    done
  from raising_fetch_ends_try_body [OF body this assms(1-4)] assms(1) assms(5)
  show ?thesis
    by (auto simp: async_update_data_def)
qed

theorem request_failure_propagates_without_future_data_witness:
  "get_future_prices 170 (DATA_ELECTRICITY expired_snapshot) = []
   \<and> async_update_data
       (account_api (Inr 12) (Inl (RequestException ''Request failed: 503''))
          (Inr renewed_tokens))
       7 170 expired_coordinator
     = (Inl (UpdateFailed ''Request failed: 503''),
        expired_coordinator
          \<lparr>trace := [CallUserPrices 7 (Some ''site-1''), CallUserPrices 8 (Some ''site-1''),
                     CallMonthSummary (Some ''site-1''), CallInvoices (Some ''site-1'')]\<rparr>)"
proof -
  let ?api = "account_api (Inr 12) (Inl (RequestException ''Request failed: 503''))
      (Inr renewed_tokens)"
  let ?run = "async_update_data ?api 7 170 expired_coordinator"
  let ?cs = "[CallUserPrices 7 (Some ''site-1''), CallUserPrices 8 (Some ''site-1''),
      CallMonthSummary (Some ''site-1'')]"
  let ?c = "CallInvoices (Some ''site-1'')"
  have run: "?run = (fst ?run, snd ?run)"
    by simp
  have issued: "prefix (trace expired_coordinator @ ?cs @ [?c]) (trace (snd ?run))"
    by (simp add: cycle_defs sample_defs)
  have fetch: "?c \<noteq> CallRenewToken"
    by simp
  have failed: "raised ?api (trace expired_coordinator @ ?cs) ?c
      = Some (RequestException ''Request failed: 503'')"
    by (simp add: account_api_def)
  have generic: "\<not> prefix ''user-error:'' ''Request failed: 503''"
    by simp
  have past: "get_future_prices 170 (DATA_ELECTRICITY expired_snapshot) = []"
    by (simp add: get_future_prices_def expired_snapshot_def)
  have stale: "\<forall>d. data expired_coordinator = Some d \<longrightarrow>
           get_future_prices 170 (DATA_ELECTRICITY d) = []
           \<or> get_future_prices 170 (DATA_GAS d) = []"
    using past by (simp add: expired_coordinator_def fresh_coordinator_def)
  have computed: "fst ?run = Inl (UpdateFailed ''Request failed: 503'')"
    by (simp add: cycle_defs sample_defs)
  from request_failure_propagates_without_future_data [OF run issued fetch failed generic stale]
  have "fst ?run = Inl (UpdateFailed ''Request failed: 503'')"
    and "snd ?run = expired_coordinator\<lparr>trace := trace expired_coordinator @ ?cs @ [?c]\<rparr>"
    by simp_all
  then have "?run = (Inl (UpdateFailed ''Request failed: 503''),
      expired_coordinator\<lparr>trace := trace expired_coordinator @ ?cs @ [?c]\<rparr>)"
    by (simp add: prod_eq_iff)
  with past computed show ?thesis
    by (simp add: expired_coordinator_def fresh_coordinator_def)
qed

text \<open>
  Claim C10: a request exception raised by any fetch of the cycle is classified by a
  prefix test on its message alone: the cycle ends with the authentication-failure signal
  if and only if the message starts with \<^verbatim>\<open>user-error:\<close>, and with a refresh failure
  carrying the message otherwise.
\<close>

theorem user_error_prefix_decides_escalation:
  assumes "async_update_data api today now s = (r, s')"
    and "prefix (trace s @ cs @ [c]) (trace s')"
    and "c \<noteq> CallRenewToken"
    and "raised api (trace s @ cs) c = Some (RequestException m)"
  shows "(r = Inl ConfigEntryAuthFailed \<longleftrightarrow> prefix ''user-error:'' m)
       \<and> (\<not> prefix ''user-error:'' m \<longrightarrow> r = Inl (UpdateFailed m))"
proof -
  obtain q s1 where body: "fetch_data api today s = (q, s1)"
    by (cases "fetch_data api today s")
  have "fetches api s (error_of q) s1"
    using body unfolding fetch_data_def Let_def
    apply (elim fetches_bind)
        apply (erule fetches_fetch_prices)
       apply (erule fetches_fetch_prices)
      apply (erule fetches_account; simp)
     apply (erule fetches_account; simp)
    apply (erule fetches_return)
    done
  from raising_fetch_ends_try_body [OF body this assms(1-4)] assms(1)
  show ?thesis
    by (auto simp: async_update_data_def split: if_splits)
qed

theorem user_error_prefix_decides_escalation_witness:
  "fst (async_update_data
         (account_api (Inl (RequestException ''a user-error: in the middle'')) (Inr 3)
            (Inr renewed_tokens))
         7 170 fresh_coordinator)
     = Inl (UpdateFailed ''a user-error: in the middle'')
   \<and> fst (async_update_data
         (account_api (Inr 12) (Inl (RequestException ''user-error:'')) (Inr renewed_tokens))
         7 170 fresh_coordinator)
     = Inl ConfigEntryAuthFailed"
proof -
  let ?a1 = "account_api (Inl (RequestException ''a user-error: in the middle'')) (Inr 3)
      (Inr renewed_tokens)"
  let ?a2 = "account_api (Inr 12) (Inl (RequestException ''user-error:'')) (Inr renewed_tokens)"
  let ?r1 = "async_update_data ?a1 7 170 fresh_coordinator"
  let ?r2 = "async_update_data ?a2 7 170 fresh_coordinator"
  let ?cs1 = "[CallUserPrices 7 (Some ''site-1''), CallUserPrices 8 (Some ''site-1'')]"
  let ?c1 = "CallMonthSummary (Some ''site-1'')"
  let ?cs2 = "?cs1 @ [?c1]"
  let ?c2 = "CallInvoices (Some ''site-1'')"
  have run1: "?r1 = (fst ?r1, snd ?r1)" and run2: "?r2 = (fst ?r2, snd ?r2)"
    by simp_all
  have issued1: "prefix (trace fresh_coordinator @ ?cs1 @ [?c1]) (trace (snd ?r1))"
    and issued2: "prefix (trace fresh_coordinator @ ?cs2 @ [?c2]) (trace (snd ?r2))"
    by (simp_all add: cycle_defs sample_defs)
  have fetch1: "?c1 \<noteq> CallRenewToken" and fetch2: "?c2 \<noteq> CallRenewToken"
    by simp_all
  have failed1: "raised ?a1 (trace fresh_coordinator @ ?cs1) ?c1
      = Some (RequestException ''a user-error: in the middle'')"
    and failed2: "raised ?a2 (trace fresh_coordinator @ ?cs2) ?c2
      = Some (RequestException ''user-error:'')"
    by (simp_all add: account_api_def)
  have computed: "fst ?r1 = Inl (UpdateFailed ''a user-error: in the middle'')"
    "fst ?r2 = Inl ConfigEntryAuthFailed"
    by (simp_all add: cycle_defs sample_defs)
  from user_error_prefix_decides_escalation [OF run1 issued1 fetch1 failed1]
    user_error_prefix_decides_escalation [OF run2 issued2 fetch2 failed2] computed
  show ?thesis by simp
qed


section \<open>The fallback between user prices and public prices\<close>

text \<open>
  Claim C9: in an authenticated session, a user price pair whose gas series and
  electricity series are both non-empty is returned as it is, and the only call made for
  the window is the user-prices call: the public prices are not fetched.
\<close>

theorem complete_user_prices_returned_as_is:
  assumes "is_authenticated api"
    and "user_prices api (trace s) start_date (site_reference s) = Inr up"
    and "gas up \<noteq> []" and "electricity up \<noteq> []"
  shows "fetch_prices_with_fallback api start_date end_date s =
         (Inr up, s\<lparr>trace := trace s @ [CallUserPrices start_date (site_reference s)]\<rparr>)"
  using assms
  by (simp add: fetch_prices_with_fallback_def call_api_def bind_io_def return_io_def price_all_def)

theorem complete_user_prices_returned_as_is_witness:
  "fetch_prices_with_fallback (answering_api True account_prices) 7 8 fresh_coordinator
   = (Inr \<lparr>electricity = [(168, 25)], gas = [(168, 80)]\<rparr>,
      fresh_coordinator\<lparr>trace := [CallUserPrices 7 (Some ''site-1'')]\<rparr>)"
proof -
  let ?api = "answering_api True account_prices"
  have auth: "is_authenticated ?api"
    by (simp add: answering_api_def)
  have answer: "user_prices ?api (trace fresh_coordinator) 7 (site_reference fresh_coordinator)
      = Inr (account_prices 7)"
    by (simp add: answering_api_def)
  have g: "gas (account_prices 7) \<noteq> []" and e: "electricity (account_prices 7) \<noteq> []"
    by (simp_all add: account_prices_def)
  from complete_user_prices_returned_as_is [OF auth answer g e, of 8]
  show ?thesis by (simp add: sample_defs)
qed

text \<open>
  Claim C6: in an authenticated session the substitution of public prices is made per
  commodity. When the user's electricity series is empty and the gas series is not, the
  result carries the public electricity series and the user's gas series; when the user's
  gas series is empty and the electricity series is not, the result carries the user's
  electricity series and the public gas series.
\<close>

theorem fallback_substitution_per_commodity:
  assumes "is_authenticated api"
    and "user_prices api (trace s) start_date (site_reference s) = Inr up"
    and "prices api (trace s @ [CallUserPrices start_date (site_reference s)]) start_date end_date = Inr pp"
  shows "(electricity up = [] \<and> gas up \<noteq> [] \<longrightarrow>
           fst (fetch_prices_with_fallback api start_date end_date s) =
             Inr \<lparr>electricity = electricity pp, gas = gas up\<rparr>)
       \<and> (gas up = [] \<and> electricity up \<noteq> [] \<longrightarrow>
           fst (fetch_prices_with_fallback api start_date end_date s) =
             Inr \<lparr>electricity = electricity up, gas = gas pp\<rparr>)"
  using assms
  by (simp add: fetch_prices_with_fallback_def call_api_def bind_io_def return_io_def price_all_def Let_def)

theorem fallback_substitution_per_commodity_witness:
  "fst (fetch_prices_with_fallback (answering_api True gas_only_prices) 7 8 fresh_coordinator)
     = Inr \<lparr>electricity = [(168, 30), (180, 28)], gas = [(168, 80)]\<rparr>
   \<and> fst (fetch_prices_with_fallback (answering_api True electricity_only_prices) 7 8
            fresh_coordinator)
     = Inr \<lparr>electricity = [(168, 25)], gas = [(168, 95)]\<rparr>"
proof -
  let ?g = "answering_api True gas_only_prices"
  let ?e = "answering_api True electricity_only_prices"
  let ?h = "trace fresh_coordinator @ [CallUserPrices 7 (site_reference fresh_coordinator)]"
  have auth: "is_authenticated ?g" "is_authenticated ?e"
    by (simp_all add: answering_api_def)
  have ug: "user_prices ?g (trace fresh_coordinator) 7 (site_reference fresh_coordinator)
      = Inr (gas_only_prices 7)"
    and ue: "user_prices ?e (trace fresh_coordinator) 7 (site_reference fresh_coordinator)
      = Inr (electricity_only_prices 7)"
    by (simp_all add: answering_api_def)
  have pg: "prices ?g ?h 7 8 = Inr (public_prices 7)"
    and pe: "prices ?e ?h 7 8 = Inr (public_prices 7)"
    by (simp_all add: answering_api_def)
  from fallback_substitution_per_commodity [OF auth(1) ug pg]
    fallback_substitution_per_commodity [OF auth(2) ue pe]
  show ?thesis
    by (simp add: gas_only_prices_def electricity_only_prices_def public_prices_def)
qed

section \<open>The snapshot of a cycle\<close>

text \<open>
  Claim C7: in an unauthenticated session the month summary and the invoices of the
  returned snapshot are \<open>None\<close>, and every price fetch is one call of the public prices
  operation: the user-prices operation is never called. The client is taken to raise its
  own exceptions only, not the host's \<^verbatim>\<open>UpdateFailed\<close>.
\<close>

theorem unauthenticated_cycle_public_only:
  assumes unauth: "\<not> is_authenticated api"
    and client: "\<forall>h a b m. prices api h a b \<noteq> Inl (UpdateFailed m)"
    and run: "async_update_data api today now s = (r, s')"
  shows "(\<forall>snap. r = Inr snap \<longrightarrow>
            DATA_MONTH_SUMMARY snap = None \<and> DATA_INVOICES snap = None)
       \<and> (\<exists>cs. trace s' = trace s @ cs
            \<and> set cs \<subseteq> {CallPrices today (today + 1), CallPrices (today + 1) (today + 2),
                          CallRenewToken})
       \<and> fetch_prices_with_fallback api start_date end_date s0 =
           (prices api (trace s0) start_date end_date,
            s0\<lparr>trace := trace s0 @ [CallPrices start_date end_date]\<rparr>)"
proof (intro conjI)
  show "fetch_prices_with_fallback api start_date end_date s0 =
           (prices api (trace s0) start_date end_date,
            s0\<lparr>trace := trace s0 @ [CallPrices start_date end_date]\<rparr>)"
    using unauth by (rule fetch_prices_unauth)
next
  let ?P1 = "CallPrices today (today + 1)"
  let ?P2 = "CallPrices (today + 1) (today + 2)"
  obtain q s1 where fd: "fetch_data api today s = (q, s1)" by (cases "fetch_data api today s")
  have t1: "trace s1 = trace s @ [?P1] \<or> trace s1 = trace s @ [?P1, ?P2]"
    using fd unfolding fetch_data_unauth [OF unauth]
    by (auto split: sum.splits)
  have raised: "\<forall>e. q = Inl e \<longrightarrow> (\<forall>m. e \<noteq> UpdateFailed m)"
    using fd client unfolding fetch_data_unauth [OF unauth]
    by (auto split: sum.splits)
  have returned: "\<forall>v. q = Inr v \<longrightarrow> (\<exists>pt pm. v = (pt, pm, None, None))"
    using fd unfolding fetch_data_unauth [OF unauth]
    by (auto split: sum.splits)
  show "\<forall>snap. r = Inr snap \<longrightarrow>
            DATA_MONTH_SUMMARY snap = None \<and> DATA_INVOICES snap = None"
  proof (cases q)
    case (Inl e)
    with run fd have "handle_exn api now e s1 = (r, s')" by (simp add: async_update_data_def)
    with raised Inl handle_exn_no_update_failed [of e api now s1 r s'] show ?thesis by auto
  next
    case (Inr v)
    with returned run fd show ?thesis by (auto simp: async_update_data_def)
  qed
  show "\<exists>cs. trace s' = trace s @ cs \<and> set cs \<subseteq> {?P1, ?P2, CallRenewToken}"
  proof (cases q)
    case (Inl e)
    with run fd have "handle_exn api now e s1 = (r, s')" by (simp add: async_update_data_def)
    with raised Inl handle_exn_no_update_failed [of e api now s1 r s']
    have "trace s' = trace s1 \<or> trace s' = trace s1 @ [CallRenewToken]" by auto
    with t1 show ?thesis by auto
  next
    case (Inr v)
    with returned run fd have "s' = s1" by (auto simp: async_update_data_def)
    with t1 show ?thesis by auto
  qed
qed

theorem unauthenticated_cycle_public_only_witness:
  "async_update_data (answering_api False account_prices) 7 170 fresh_coordinator
   = (Inr \<lparr>DATA_ELECTRICITY = [(168, 30), (180, 28), (192, 30), (204, 28)],
            DATA_GAS = [(168, 95), (192, 95)],
            DATA_MONTH_SUMMARY = None,
            DATA_INVOICES = None\<rparr>,
      fresh_coordinator\<lparr>trace := [CallPrices 7 8, CallPrices 8 9]\<rparr>)"
proof -
  let ?api = "answering_api False account_prices"
  let ?r = "async_update_data ?api 7 170 fresh_coordinator"
  have unauth: "\<not> is_authenticated ?api"
    by (simp add: answering_api_def)
  have client: "\<forall>h a b m. prices ?api h a b \<noteq> Inl (UpdateFailed m)"
    by (simp add: answering_api_def)
  have run: "?r = (fst ?r, snd ?r)"
    by simp
  have returned: "\<exists>snap. fst ?r = Inr snap"
    by (simp add: cycle_defs sample_defs)
  note c = unauthenticated_cycle_public_only [OF unauth client run,
      where start_date = 7 and end_date = 8 and ?s0.0 = fresh_coordinator]
  from c returned have "\<exists>snap. fst ?r = Inr snap
      \<and> DATA_MONTH_SUMMARY snap = None \<and> DATA_INVOICES snap = None"
    by blast
  then show ?thesis
    by (simp add: cycle_defs sample_defs)
qed

text \<open>
  Claim C8: in a successful cycle (every fetch of the cycle returned) with today \<open>d\<close>, the
  prices are fetched for the window from \<open>d\<close> to \<open>d + 1\<close> and then for the window from
  \<open>d + 1\<close> to \<open>d + 2\<close>, no other price call is made, and the electricity series of the
  snapshot is the series of the first window followed by the series of the second one;
  likewise for gas.
\<close>

theorem cycle_fetches_two_windows_and_concatenates:
  assumes "fetch_data api d s = (Inr (pt, pm, ms, iv), s')"
  shows "\<exists>s1 s2 w1 w2.
           fetch_prices_with_fallback api d (d + 1) s = (Inr pt, s1)
         \<and> fetch_prices_with_fallback api (d + 1) (d + 2) s1 = (Inr pm, s2)
         \<and> w1 \<in> window_calls d (d + 1) (site_reference s)
         \<and> w2 \<in> window_calls (d + 1) (d + 2) (site_reference s)
         \<and> trace s' = trace s @ w1 @ w2 @
              (if is_authenticated api
               then [CallMonthSummary (site_reference s), CallInvoices (site_reference s)]
               else [])
         \<and> fst (async_update_data api d now s) =
              Inr \<lparr>DATA_ELECTRICITY = electricity pt @ electricity pm,
                    DATA_GAS = gas pt @ gas pm,
                    DATA_MONTH_SUMMARY = ms,
                    DATA_INVOICES = iv\<rparr>"
proof -
  from fetch_data_success [OF assms] obtain s1 s2 where
    f1: "fetch_prices_with_fallback api d (d + 1) s = (Inr pt, s1)" and
    f2: "fetch_prices_with_fallback api (d + 1) (d + 2) s1 = (Inr pm, s2)" and
    s': "s' = s2\<lparr>trace := trace s2 @
                       (if is_authenticated api
                        then [CallMonthSummary (site_reference s), CallInvoices (site_reference s)]
                        else [])\<rparr>"
    by blast
  from fetch_prices_trace [OF f1] obtain w1 where
    w1: "w1 \<in> window_calls d (d + 1) (site_reference s)" and s1: "s1 = s\<lparr>trace := trace s @ w1\<rparr>"
    by blast
  from fetch_prices_trace [OF f2] obtain w2 where
    w2: "w2 \<in> window_calls (d + 1) (d + 2) (site_reference s1)" and
    s2: "s2 = s1\<lparr>trace := trace s1 @ w2\<rparr>"
    by blast
  have site: "site_reference s1 = site_reference s" using s1 by simp
  have tr: "trace s' = trace s @ w1 @ w2 @
              (if is_authenticated api
               then [CallMonthSummary (site_reference s), CallInvoices (site_reference s)]
               else [])"
    using s' s1 s2 by simp
  have res: "fst (async_update_data api d now s) =
              Inr \<lparr>DATA_ELECTRICITY = electricity pt @ electricity pm,
                    DATA_GAS = gas pt @ gas pm,
                    DATA_MONTH_SUMMARY = ms,
                    DATA_INVOICES = iv\<rparr>"
    using assms by (simp add: async_update_data_def price_add_def)
  from f1 f2 w1 w2 site tr res show ?thesis by metis
qed

theorem cycle_fetches_two_windows_and_concatenates_witness:
  "fst (async_update_data (answering_api True gas_only_prices) 7 170 fresh_coordinator)
   = Inr \<lparr>DATA_ELECTRICITY = [(168, 30), (180, 28), (192, 30), (204, 28)],
           DATA_GAS = [(168, 80), (192, 80)],
           DATA_MONTH_SUMMARY = Some 12,
           DATA_INVOICES = Some 3\<rparr>"
proof -
  let ?api = "answering_api True gas_only_prices"
  let ?pt = "\<lparr>electricity = [(168, 30), (180, 28)], gas = [(168, 80)]\<rparr>"
  let ?pm = "\<lparr>electricity = [(192, 30), (204, 28)], gas = [(192, 80)]\<rparr>"
  let ?s' = "fresh_coordinator
      \<lparr>trace := [CallUserPrices 7 (Some ''site-1''), CallPrices 7 8,
                 CallUserPrices 8 (Some ''site-1''), CallPrices 8 9,
                 CallMonthSummary (Some ''site-1''), CallInvoices (Some ''site-1'')]\<rparr>"
  have fetched: "fetch_data ?api 7 fresh_coordinator = (Inr (?pt, ?pm, Some 12, Some 3), ?s')"
    by (simp add: cycle_defs sample_defs)
  from cycle_fetches_two_windows_and_concatenates [OF fetched, where now = 170]
  show ?thesis by auto
qed

text \<open>
  Claim C5: a cycle never overwrites the cached snapshot in part. It never assigns
  \<^verbatim>\<open>self.data\<close>; it ends with an exception, or returns the cached snapshot itself, or
  returns a new snapshot whose four fields are all built from the fetches of this cycle.
\<close>

theorem snapshot_never_partially_overwritten:
  assumes "async_update_data api today now s = (r, s')"
  shows "data s' = data s
       \<and> ((\<exists>e. r = Inl e)
          \<or> (\<exists>old. r = Inr old \<and> data s = Some old)
          \<or> (\<exists>pt pm ms iv. fetch_data api today s = (Inr (pt, pm, ms, iv), s')
               \<and> r = Inr \<lparr>DATA_ELECTRICITY = electricity pt @ electricity pm,
                           DATA_GAS = gas pt @ gas pm,
                           DATA_MONTH_SUMMARY = ms,
                           DATA_INVOICES = iv\<rparr>))"
proof (cases "fetch_data api today s")
  case (Pair q s1)
  show ?thesis
  proof (cases q)
    case (Inl e)
    with Pair assms have h: "handle_exn api now e s1 = (r, s')"
      by (simp add: async_update_data_def)
    have d: "data s' = data s"
      using handle_exn_keeps_data [OF h] fetch_data_keeps_data Pair by metis
    have "(\<exists>e'. r = Inl e') \<or> (\<exists>old. r = Inr old \<and> data s1 = Some old)"
      using h by (cases e) (auto split: option.splits if_splits prod.splits sum.splits)
    moreover have "data s1 = data s" using fetch_data_keeps_data Pair by metis
    ultimately show ?thesis using d by auto
  next
    case (Inr v)
    obtain pt pm ms iv where v: "v = (pt, pm, ms, iv)" by (cases v) auto
    with Pair Inr assms have
      "s' = s1" and
      "r = Inr \<lparr>DATA_ELECTRICITY = electricity pt @ electricity pm,
                           DATA_GAS = gas pt @ gas pm,
                           DATA_MONTH_SUMMARY = ms,
                           DATA_INVOICES = iv\<rparr>"
      by (auto simp: async_update_data_def price_add_def)
    moreover have "data s1 = data s" using fetch_data_keeps_data Pair by metis
    ultimately show ?thesis using Pair Inr v by auto
  qed
qed

theorem snapshot_never_partially_overwritten_witness:
  "data (snd (async_update_data (answering_api True account_prices) 7 170 cached_coordinator))
     = Some cached_snapshot
   \<and> fst (async_update_data (answering_api True account_prices) 7 170 cached_coordinator)
     = Inr \<lparr>DATA_ELECTRICITY = [(168, 25), (192, 25)],
             DATA_GAS = [(168, 80), (192, 80)],
             DATA_MONTH_SUMMARY = Some 12,
             DATA_INVOICES = Some 3\<rparr>"
proof -
  let ?r = "async_update_data (answering_api True account_prices) 7 170 cached_coordinator"
  have run: "?r = (fst ?r, snd ?r)"
    by simp
  have cached: "data cached_coordinator = Some cached_snapshot"
    by (simp add: cached_coordinator_def fresh_coordinator_def)
  from snapshot_never_partially_overwritten [OF run] cached
  have "data (snd ?r) = Some cached_snapshot"
    by simp
  then show ?thesis
    by (simp add: cycle_defs sample_defs)
qed

end
